theory Spec2Isabelle
  imports Main "HOL-Library.Word" "HOL-Library.Sublist"
begin

section \<open>The capture script \<^verbatim>\<open>verify_loading.py\<close>\<close>

text \<open>
  The script is one coroutine, \<^verbatim>\<open>run\<close>, started once by \<^verbatim>\<open>asyncio.run(run())\<close>:
  \<^verbatim>\<open>
  async def run():
      async with async_playwright() as p:
          browser = await p.chromium.launch()
          page = await browser.new_page()
          await page.goto("http://localhost:8081")
          await page.wait_for_selector("text=LOADING")
          await page.screenshot(path="loading_verification.png")
          print("Captured loading_verification.png")
          await browser.close()
  \<close>
  Everything it does is a call into the automation library or onto the standard output,
  so the embedding has two layers. The library, the browser, the server and the standard
  output are an environment that answers each call (it returns or it raises); the
  coroutine is a program over an explicit state that holds the file system, the text
  handed to the standard output, the log of the calls made and the handles that are
  live.
\<close>

subsection \<open>Errors and outcomes\<close>

text \<open>
  The library raises an error when a navigation cannot connect, a timeout error when a
  wait expires, and other errors (no browser installed, a closed target, a path that
  cannot be written) with a message. Writing to the standard output raises an
  \<^verbatim>\<open>OSError\<close> when the stream cannot take the text.
\<close>

datatype error = ConnectionError | TimeoutError | EngineError string | OSError string

datatype 'a outcome = Returns 'a | Raises error

type_synonym byte = "8 word"

subsection \<open>The environment: what each call answers\<close>

text \<open>
  One field per awaited call of the source, one for the write that \<^verbatim>\<open>print\<close> makes, and
  one for the flush of the standard output that the interpreter makes when the process
  ends. The calls that take an argument answer per argument, so the model records which
  address, selector, path and text the script asks for. \<open>screenshot\<close> answers with the
  bytes of the encoded image.
\<close>

record env =
  start :: "unit outcome"
  launch :: "unit outcome"
  new_page :: "unit outcome"
  goto :: "string \<Rightarrow> unit outcome"
  wait_for_selector :: "string \<Rightarrow> unit outcome"
  screenshot :: "string \<Rightarrow> byte list outcome"
  stdout_write :: "string \<Rightarrow> unit outcome"
  close :: "unit outcome"
  stdout_flush :: "unit outcome"

subsection \<open>The state of one process\<close>

datatype op =
    Start
  | Launch
  | NewPage
  | Goto string
  | WaitForSelector string
  | Screenshot string
  | Print string
  | Close
  | Stop

type_synonym event = "op \<times> error option"

datatype resource = Driver | Browser | Page

record state =
  files :: "string \<rightharpoonup> byte list"
  stdout :: string
  trace :: "event list"
  live :: "resource set"

type_synonym prog = "state \<Rightarrow> unit outcome \<times> state"

text \<open>Every call is logged with how it ended: \<open>None\<close> when it returned.\<close>

definition log :: "op \<Rightarrow> error option \<Rightarrow> state \<Rightarrow> state" where
  "log c r s = s\<lparr>trace := trace s @ [(c, r)]\<rparr>"

text \<open>A call returned, whatever it returned.\<close>

fun returns :: "'a outcome \<Rightarrow> bool" where
  "returns (Returns _) = True"
| "returns (Raises _) = False"

subsection \<open>The library calls\<close>

text \<open>
  What the calls do to the state is the library's behaviour, not the script's:
  \<^item> entering \<^verbatim>\<open>async_playwright()\<close> starts the driver process;
  \<^item> \<^verbatim>\<open>launch\<close> starts a browser process, \<^verbatim>\<open>new_page\<close> opens a page in it;
  \<^item> \<^verbatim>\<open>screenshot(path=...)\<close> writes the bytes of the image it took to the path, over
    whatever is there, and writes nothing when it raises;
  \<^item> \<^verbatim>\<open>browser.close()\<close> ends the browser process together with its pages;
  \<^item> leaving \<^verbatim>\<open>async_playwright()\<close> stops the driver, and the driver ends the browsers it
    launched, with their pages, as it goes.
\<close>

definition playwright_start :: "env \<Rightarrow> prog" where
  "playwright_start e s =
     (case start e of
        Returns _ \<Rightarrow> (Returns (), log Start None (s\<lparr>live := insert Driver (live s)\<rparr>))
      | Raises x \<Rightarrow> (Raises x, log Start (Some x) s))"

definition playwright_stop :: prog where
  "playwright_stop s =
     (Returns (), log Stop None (s\<lparr>live := live s - {Driver, Browser, Page}\<rparr>))"

definition chromium_launch :: "env \<Rightarrow> prog" where
  "chromium_launch e s =
     (case launch e of
        Returns _ \<Rightarrow> (Returns (), log Launch None (s\<lparr>live := insert Browser (live s)\<rparr>))
      | Raises x \<Rightarrow> (Raises x, log Launch (Some x) s))"

definition browser_new_page :: "env \<Rightarrow> prog" where
  "browser_new_page e s =
     (case new_page e of
        Returns _ \<Rightarrow> (Returns (), log NewPage None (s\<lparr>live := insert Page (live s)\<rparr>))
      | Raises x \<Rightarrow> (Raises x, log NewPage (Some x) s))"

definition page_goto :: "env \<Rightarrow> string \<Rightarrow> prog" where
  "page_goto e url s =
     (case goto e url of
        Returns _ \<Rightarrow> (Returns (), log (Goto url) None s)
      | Raises x \<Rightarrow> (Raises x, log (Goto url) (Some x) s))"

definition page_wait_for_selector :: "env \<Rightarrow> string \<Rightarrow> prog" where
  "page_wait_for_selector e sel s =
     (case wait_for_selector e sel of
        Returns _ \<Rightarrow> (Returns (), log (WaitForSelector sel) None s)
      | Raises x \<Rightarrow> (Raises x, log (WaitForSelector sel) (Some x) s))"

definition page_screenshot :: "env \<Rightarrow> string \<Rightarrow> prog" where
  "page_screenshot e path s =
     (case screenshot e path of
        Returns img \<Rightarrow>
          (Returns (), log (Screenshot path) None (s\<lparr>files := (files s)(path \<mapsto> img)\<rparr>))
      | Raises x \<Rightarrow> (Raises x, log (Screenshot path) (Some x) s))"

definition browser_close :: "env \<Rightarrow> prog" where
  "browser_close e s =
     (case close e of
        Returns _ \<Rightarrow> (Returns (), log Close None (s\<lparr>live := live s - {Browser, Page}\<rparr>))
      | Raises x \<Rightarrow> (Raises x, log Close (Some x) s))"

subsection \<open>Printing\<close>

text \<open>
  \<^verbatim>\<open>print\<close> hands its argument and a newline to the standard output. The stream takes
  the text, or the write raises (the stream is unbuffered and the device is full),
  and then nothing of the text is taken and the exception is \<^verbatim>\<open>print\<close>'s.
\<close>

definition print :: "env \<Rightarrow> string \<Rightarrow> prog" where
  "print e msg s =
     (case stdout_write e msg of
        Returns _ \<Rightarrow>
          (Returns (), log (Print msg) None (s\<lparr>stdout := stdout s @ msg @ [CHR 0x0A]\<rparr>))
      | Raises x \<Rightarrow> (Raises x, log (Print msg) (Some x) s))"

subsection \<open>Sequencing and the \<^verbatim>\<open>async with\<close> block\<close>

text \<open>
  One statement after another: the second runs only when the first has returned, and
  an exception of the first is the exception of both.
\<close>

definition seq :: "prog \<Rightarrow> prog \<Rightarrow> prog" where
  "seq f g s = (case f s of (Returns _, s') \<Rightarrow> g s' | (Raises x, s') \<Rightarrow> (Raises x, s'))"

text \<open>
  \<^verbatim>\<open>async with async_playwright() as p: body\<close>. When entering raises, the body and the
  exit are skipped. Otherwise the exit runs after the body however the body ended; it
  does not swallow the body's exception, so the block ends as the body did.
\<close>

definition async_with :: "env \<Rightarrow> prog \<Rightarrow> prog" where
  "async_with e body s =
     (case playwright_start e s of
        (Raises x, s') \<Rightarrow> (Raises x, s')
      | (Returns _, s') \<Rightarrow>
          (case body s' of (r, s'') \<Rightarrow> (r, snd (playwright_stop s''))))"

subsection \<open>The coroutine and the script\<close>

definition run :: "env \<Rightarrow> prog" where
  "run e =
     async_with e
       (seq (chromium_launch e)
       (seq (browser_new_page e)
       (seq (page_goto e ''http://localhost:8081'')
       (seq (page_wait_for_selector e ''text=LOADING'')
       (seq (page_screenshot e ''loading_verification.png'')
       (seq (print e ''Captured loading_verification.png'')
            (browser_close e)))))))"

text \<open>
  The process: \<^verbatim>\<open>asyncio.run(run())\<close> at module level. It starts with no handle, an
  empty output and the file system it finds. The script reads neither its command line
  nor its process environment, which are arguments here so that this can be stated. An
  exception that leaves \<^verbatim>\<open>run\<close> leaves \<^verbatim>\<open>asyncio.run\<close> too, nothing catches it, and the
  interpreter prints the traceback and ends with status 1; when \<^verbatim>\<open>run\<close> returns, the
  status is 0. As the process ends, the interpreter flushes what the standard output
  still holds; when there is text to flush and the flush fails, the status is 120
  instead, whatever it was.
\<close>

record result =
  exit_code :: nat
  uncaught :: "error option"
  final :: state

definition script ::
  "string list \<Rightarrow> (string \<rightharpoonup> string) \<Rightarrow> env \<Rightarrow> (string \<rightharpoonup> byte list) \<Rightarrow> result" where
  "script argv environ e fs =
     (case run e \<lparr>files = fs, stdout = [], trace = [], live = {}\<rparr> of
        (r, s) \<Rightarrow>
          \<lparr>exit_code =
             (if stdout s \<noteq> [] \<and> \<not> returns (stdout_flush e) then 120
              else case r of Returns _ \<Rightarrow> 0 | Raises _ \<Rightarrow> 1),
           uncaught = (case r of Returns _ \<Rightarrow> None | Raises x \<Rightarrow> Some x),
           final = s\<rparr>)"

text \<open>
  Running the script several times, one process after the other on the same file
  system: each run has its own environment and finds the files the previous one left.
\<close>

fun rerun :: "env list \<Rightarrow> (string \<rightharpoonup> byte list) \<Rightarrow> result list" where
  "rerun [] fs = []"
| "rerun (e # es) fs = script [] Map.empty e fs # rerun es (files (final (script [] Map.empty e fs)))"

subsection \<open>Vocabulary of the statements\<close>

text \<open>
  The six steps of the capture in the order of the source: lines 6, 7, 8, 10, 11 and 13.
\<close>

definition capture_steps :: "op list" where
  "capture_steps =
     [Launch, NewPage, Goto ''http://localhost:8081'', WaitForSelector ''text=LOADING'',
      Screenshot ''loading_verification.png'', Close]"


subsection \<open>Some environments\<close>

text \<open>
  An environment in which every call returns, and variants of it: the page never shows
  the loader; nothing listens at the address; the output path cannot be written; the
  browser is gone when it is closed; the standard output is unbuffered on a full device
  and refuses the write; the standard output is buffered on a full device, so that the
  write is taken and the flush fails; the page renders differently; nothing can be
  reached but the address the script asks for.
\<close>

definition all_ok :: env where
  "all_ok = \<lparr>start = Returns (), launch = Returns (), new_page = Returns (),
     goto = (\<lambda>_. Returns ()), wait_for_selector = (\<lambda>_. Returns ()),
     screenshot = (\<lambda>_. Returns [137, 80, 78, 71]), stdout_write = (\<lambda>_. Returns ()),
     close = Returns (), stdout_flush = Returns ()\<rparr>"

definition never_loading :: env where
  "never_loading = all_ok\<lparr>wait_for_selector := (\<lambda>_. Raises TimeoutError)\<rparr>"

definition unreachable :: env where
  "unreachable = all_ok\<lparr>goto := (\<lambda>_. Raises ConnectionError)\<rparr>"

definition unwritable :: env where
  "unwritable = all_ok\<lparr>screenshot := (\<lambda>_. Raises (EngineError ''permission denied''))\<rparr>"

definition close_fails :: env where
  "close_fails = all_ok\<lparr>close := Raises (EngineError ''connection closed'')\<rparr>"

definition stdout_refuses :: env where
  "stdout_refuses = all_ok\<lparr>stdout_write := (\<lambda>_. Raises (OSError ''no space left on device''))\<rparr>"

definition stdout_full :: env where
  "stdout_full = all_ok\<lparr>stdout_flush := Raises (OSError ''no space left on device'')\<rparr>"

definition later_shot :: env where
  "later_shot = all_ok\<lparr>screenshot := (\<lambda>_. Returns [137, 80, 78, 71, 1, 2])\<rparr>"

definition only_localhost :: env where
  "only_localhost = all_ok\<lparr>goto :=
     (\<lambda>url. if url = ''http://localhost:8081'' then Returns () else Raises ConnectionError)\<rparr>"

section \<open>The paths through the script\<close>

lemmas call_defs = playwright_start_def playwright_stop_def chromium_launch_def
  browser_new_page_def page_goto_def page_wait_for_selector_def page_screenshot_def
  print_def browser_close_def log_def

lemmas run_defs = script_def run_def async_with_def seq_def call_defs

lemmas env_defs = all_ok_def never_loading_def unreachable_def unwritable_def
  close_fails_def stdout_refuses_def stdout_full_def later_shot_def only_localhost_def

lemma returns_unit: "returns (x :: unit outcome) \<longleftrightarrow> x = Returns ()"
  by (cases x) simp_all


text \<open>
  The script has nine paths: one for each call that can raise, and the one on which
  every call returns. Each path fixes the whole result: exit status, the exception that
  escaped, the files, the output, the log and the live handles.
\<close>

lemma script_paths [case_names start_raises launch_raises new_page_raises goto_raises wait_raises
    screenshot_raises print_raises close_raises completes]:
  fixes e :: env
  obtains
    x where "start e = Raises x"
      and "script argv environ e fs = \<lparr>exit_code = 1, uncaught = Some x,
             final = \<lparr>files = fs, stdout = [],
               trace = [(Start, Some x)],
               live = {}\<rparr>\<rparr>"
  | x where "start e = Returns ()" and "launch e = Raises x"
      and "script argv environ e fs = \<lparr>exit_code = 1, uncaught = Some x,
             final = \<lparr>files = fs, stdout = [],
               trace = [(Start, None),
                 (Launch, Some x),
                 (Stop, None)],
               live = {}\<rparr>\<rparr>"
  | x where "start e = Returns ()" and "launch e = Returns ()" and "new_page e = Raises x"
      and "script argv environ e fs = \<lparr>exit_code = 1, uncaught = Some x,
             final = \<lparr>files = fs, stdout = [],
               trace = [(Start, None),
                 (Launch, None),
                 (NewPage, Some x),
                 (Stop, None)],
               live = {}\<rparr>\<rparr>"
  | x where "start e = Returns ()" and "launch e = Returns ()" and "new_page e = Returns ()"
      and "goto e ''http://localhost:8081'' = Raises x"
      and "script argv environ e fs = \<lparr>exit_code = 1, uncaught = Some x,
             final = \<lparr>files = fs, stdout = [],
               trace = [(Start, None),
                 (Launch, None),
                 (NewPage, None),
                 (Goto ''http://localhost:8081'', Some x),
                 (Stop, None)],
               live = {}\<rparr>\<rparr>"
  | x where "start e = Returns ()" and "launch e = Returns ()" and "new_page e = Returns ()"
      and "goto e ''http://localhost:8081'' = Returns ()"
      and "wait_for_selector e ''text=LOADING'' = Raises x"
      and "script argv environ e fs = \<lparr>exit_code = 1, uncaught = Some x,
             final = \<lparr>files = fs, stdout = [],
               trace = [(Start, None),
                 (Launch, None),
                 (NewPage, None),
                 (Goto ''http://localhost:8081'', None),
                 (WaitForSelector ''text=LOADING'', Some x),
                 (Stop, None)],
               live = {}\<rparr>\<rparr>"
  | x where "start e = Returns ()" and "launch e = Returns ()" and "new_page e = Returns ()"
      and "goto e ''http://localhost:8081'' = Returns ()"
      and "wait_for_selector e ''text=LOADING'' = Returns ()"
      and "screenshot e ''loading_verification.png'' = Raises x"
      and "script argv environ e fs = \<lparr>exit_code = 1, uncaught = Some x,
             final = \<lparr>files = fs, stdout = [],
               trace = [(Start, None),
                 (Launch, None),
                 (NewPage, None),
                 (Goto ''http://localhost:8081'', None),
                 (WaitForSelector ''text=LOADING'', None),
                 (Screenshot ''loading_verification.png'', Some x),
                 (Stop, None)],
               live = {}\<rparr>\<rparr>"
  | x img where "start e = Returns ()" and "launch e = Returns ()" and "new_page e = Returns ()"
      and "goto e ''http://localhost:8081'' = Returns ()"
      and "wait_for_selector e ''text=LOADING'' = Returns ()"
      and "screenshot e ''loading_verification.png'' = Returns img"
      and "stdout_write e ''Captured loading_verification.png'' = Raises x"
      and "script argv environ e fs = \<lparr>exit_code = 1, uncaught = Some x,
             final = \<lparr>files = fs(''loading_verification.png'' \<mapsto> img), stdout = [],
               trace = [(Start, None),
                 (Launch, None),
                 (NewPage, None),
                 (Goto ''http://localhost:8081'', None),
                 (WaitForSelector ''text=LOADING'', None),
                 (Screenshot ''loading_verification.png'', None),
                 (Print ''Captured loading_verification.png'', Some x),
                 (Stop, None)],
               live = {}\<rparr>\<rparr>"
  | x img where "start e = Returns ()" and "launch e = Returns ()" and "new_page e = Returns ()"
      and "goto e ''http://localhost:8081'' = Returns ()"
      and "wait_for_selector e ''text=LOADING'' = Returns ()"
      and "screenshot e ''loading_verification.png'' = Returns img"
      and "stdout_write e ''Captured loading_verification.png'' = Returns ()"
      and "close e = Raises x"
      and "script argv environ e fs = \<lparr>exit_code = (if returns (stdout_flush e) then 1 else 120), uncaught = Some x,
             final = \<lparr>files = fs(''loading_verification.png'' \<mapsto> img), stdout = ''Captured loading_verification.png'' @ [CHR 0x0A],
               trace = [(Start, None),
                 (Launch, None),
                 (NewPage, None),
                 (Goto ''http://localhost:8081'', None),
                 (WaitForSelector ''text=LOADING'', None),
                 (Screenshot ''loading_verification.png'', None),
                 (Print ''Captured loading_verification.png'', None),
                 (Close, Some x),
                 (Stop, None)],
               live = {}\<rparr>\<rparr>"
  | img where "start e = Returns ()" and "launch e = Returns ()" and "new_page e = Returns ()"
      and "goto e ''http://localhost:8081'' = Returns ()"
      and "wait_for_selector e ''text=LOADING'' = Returns ()"
      and "screenshot e ''loading_verification.png'' = Returns img"
      and "stdout_write e ''Captured loading_verification.png'' = Returns ()"
      and "close e = Returns ()"
      and "script argv environ e fs =
             \<lparr>exit_code = (if returns (stdout_flush e) then 0 else 120), uncaught = None,
             final = \<lparr>files = fs(''loading_verification.png'' \<mapsto> img), stdout = ''Captured loading_verification.png'' @ [CHR 0x0A],
               trace = [(Start, None),
                 (Launch, None),
                 (NewPage, None),
                 (Goto ''http://localhost:8081'', None),
                 (WaitForSelector ''text=LOADING'', None),
                 (Screenshot ''loading_verification.png'', None),
                 (Print ''Captured loading_verification.png'', None),
                 (Close, None),
                 (Stop, None)],
               live = {}\<rparr>\<rparr>"
proof (cases "start e")
  case (Raises x)
  then show ?thesis by (intro that(1)) (simp_all add: run_defs)
next
  case s: (Returns u)
  show ?thesis
  proof (cases "launch e")
    case (Raises x)
    with s show ?thesis by (intro that(2)) (simp_all add: run_defs)
  next
    case l: (Returns u)
    show ?thesis
    proof (cases "new_page e")
      case (Raises x)
      with s l show ?thesis by (intro that(3)) (simp_all add: run_defs)
    next
      case n: (Returns u)
      show ?thesis
      proof (cases "goto e ''http://localhost:8081''")
        case (Raises x)
        with s l n show ?thesis by (intro that(4)) (simp_all add: run_defs)
      next
        case g: (Returns u)
        show ?thesis
        proof (cases "wait_for_selector e ''text=LOADING''")
          case (Raises x)
          with s l n g show ?thesis by (intro that(5)) (simp_all add: run_defs)
        next
          case w: (Returns u)
          show ?thesis
          proof (cases "screenshot e ''loading_verification.png''")
            case (Raises x)
            with s l n g w show ?thesis by (intro that(6)) (simp_all add: run_defs)
          next
            case c: (Returns img)
            show ?thesis
            proof (cases "stdout_write e ''Captured loading_verification.png''")
              case (Raises x)
              with s l n g w c show ?thesis by (intro that(7)) (simp_all add: run_defs)
            next
              case p: (Returns u)
              show ?thesis
              proof (cases "close e")
                case (Raises x)
                with s l n g w c p show ?thesis by (intro that(8)) (simp_all add: run_defs)
              next
                case (Returns u)
                with s l n g w c p show ?thesis by (intro that(9)) (simp_all add: run_defs)
              qed
            qed
          qed
        qed
      qed
    qed
  qed
qed

text \<open>A run that exits with status 0 has written the screenshot over whatever was there.\<close>

lemma script_success:
  assumes "exit_code (script argv environ e fs) = 0"
  shows "\<exists>img. screenshot e ''loading_verification.png'' = Returns img
     \<and> files (final (script argv environ e fs)) = fs(''loading_verification.png'' \<mapsto> img)"
  using assms by (cases rule: script_paths [of e argv environ fs]) (simp_all split: if_splits)

lemma rerun_last_files:
  assumes "es \<noteq> []" and "list_all (\<lambda>r. exit_code r = 0) (rerun es fs)"
  shows "\<exists>img. screenshot (last es) ''loading_verification.png'' = Returns img
     \<and> files (final (last (rerun es fs))) = fs(''loading_verification.png'' \<mapsto> img)"
  using assms
proof (induction es arbitrary: fs)
  case Nil
  then show ?case by simp
next
  case (Cons e es)
  from Cons.prems have ok: "exit_code (script [] Map.empty e fs) = 0" by simp
  from script_success [OF ok] obtain c where
    c: "screenshot e ''loading_verification.png'' = Returns c"
    and f: "files (final (script [] Map.empty e fs)) = fs(''loading_verification.png'' \<mapsto> c)"
    by blast
  show ?case
  proof (cases "es = []")
    case True
    with c f show ?thesis by simp
  next
    case False
    from Cons.prems have rest: "list_all (\<lambda>r. exit_code r = 0)
        (rerun es (files (final (script [] Map.empty e fs))))" by simp
    from Cons.IH [OF False rest] obtain c' where
      "screenshot (last es) ''loading_verification.png'' = Returns c'"
      "files (final (last (rerun es (files (final (script [] Map.empty e fs))))))
         = (files (final (script [] Map.empty e fs)))(''loading_verification.png'' \<mapsto> c')"
      by blast
    moreover from False have "rerun es (files (final (script [] Map.empty e fs))) \<noteq> []"
      by (cases es) simp_all
    ultimately show ?thesis using False f by simp
  qed
qed

section \<open>Success\<close>




section \<open>The wait expires\<close>

text \<open>
  Claim C2. For every run in which the server is reachable but the text LOADING does not
  appear before the wait expires, the routine fails with the timeout error and does not
  produce the output file: the screenshot step is never reached. The run meant is one
  that gets to the server, with an engine that starts, launches a browser and opens a
  page; then the timeout error of the wait is the exception that escapes. That the
  script fails with status 1, leaves the files exactly as they were, prints nothing and
  makes no screenshot call holds even without that.
\<close>

theorem wait_timeout_no_capture:
  assumes "returns (goto e ''http://localhost:8081'')"
    and "wait_for_selector e ''text=LOADING'' = Raises TimeoutError"
  shows "exit_code (script argv environ e fs) = 1
    \<and> uncaught (script argv environ e fs) \<noteq> None
    \<and> files (final (script argv environ e fs)) = fs
    \<and> stdout (final (script argv environ e fs)) = []
    \<and> (\<forall>p x. (Screenshot p, x) \<notin> set (trace (final (script argv environ e fs))))
    \<and> (returns (start e) \<and> returns (launch e) \<and> returns (new_page e) \<longrightarrow>
          uncaught (script argv environ e fs) = Some TimeoutError
          \<and> (WaitForSelector ''text=LOADING'', Some TimeoutError)
              \<in> set (trace (final (script argv environ e fs))))"
  using assms
  by (cases rule: script_paths [of e argv environ fs]) simp_all

theorem wait_timeout_no_capture_witness:
  "returns (goto never_loading ''http://localhost:8081'')
   \<and> wait_for_selector never_loading ''text=LOADING'' = Raises TimeoutError
   \<and> returns (start never_loading) \<and> returns (launch never_loading)
   \<and> returns (new_page never_loading)
   \<and> exit_code (script [] Map.empty never_loading Map.empty) = 1
   \<and> uncaught (script [] Map.empty never_loading Map.empty) = Some TimeoutError
   \<and> files (final (script [] Map.empty never_loading Map.empty)) = Map.empty
   \<and> stdout (final (script [] Map.empty never_loading Map.empty)) = []"
  using wait_timeout_no_capture [of never_loading "[]" Map.empty Map.empty]
  by (simp add: env_defs)

section \<open>The address is unreachable\<close>

text \<open>
  Claim C3. For every run in which the target address is unreachable, the navigation
  fails with a connection error and no output file is produced: no later step of the
  routine runs. The run meant is one that gets to the navigation, with an engine that
  starts, launches a browser and opens a page; then the navigation is attempted and its
  connection error is the exception that escapes. That the script fails with status 1,
  leaves the files exactly as they were, prints nothing and makes no call after the
  navigation (no wait, no screenshot, no print, no close) holds even without that.
\<close>

theorem unreachable_no_capture:
  assumes "goto e ''http://localhost:8081'' = Raises ConnectionError"
  shows "exit_code (script argv environ e fs) = 1
    \<and> uncaught (script argv environ e fs) \<noteq> None
    \<and> files (final (script argv environ e fs)) = fs
    \<and> stdout (final (script argv environ e fs)) = []
    \<and> fst ` set (trace (final (script argv environ e fs)))
         \<subseteq> {Start, Launch, NewPage, Goto ''http://localhost:8081'', Stop}
    \<and> (returns (start e) \<and> returns (launch e) \<and> returns (new_page e) \<longrightarrow>
          uncaught (script argv environ e fs) = Some ConnectionError
          \<and> (Goto ''http://localhost:8081'', Some ConnectionError)
              \<in> set (trace (final (script argv environ e fs))))"
  using assms
  by (cases rule: script_paths [of e argv environ fs]) simp_all

theorem unreachable_no_capture_witness:
  "goto unreachable ''http://localhost:8081'' = Raises ConnectionError
   \<and> returns (start unreachable) \<and> returns (launch unreachable)
   \<and> returns (new_page unreachable)
   \<and> exit_code (script [] Map.empty unreachable Map.empty) = 1
   \<and> uncaught (script [] Map.empty unreachable Map.empty) = Some ConnectionError
   \<and> files (final (script [] Map.empty unreachable Map.empty)) = Map.empty
   \<and> stdout (final (script [] Map.empty unreachable Map.empty)) = []"
  using unreachable_no_capture [of unreachable "[]" Map.empty Map.empty]
  by (simp add: env_defs)

section \<open>Handles\<close>

text \<open>
  \<^verbatim>\<open>browser.close()\<close> is the last statement of the block, so it runs only when
  everything before it has returned. On the other paths the handles go with the driver,
  when the \<^verbatim>\<open>async with\<close> block is left: once the driver has started, the exit of the
  block is the last call of every run.
\<close>

lemma close_only_after_print:
  "(\<exists>r. (Close, r) \<in> set (trace (final (script argv environ e fs))))
     \<longleftrightarrow> (Print ''Captured loading_verification.png'', None)
           \<in> set (trace (final (script argv environ e fs)))"
  by (cases rule: script_paths [of e argv environ fs]) simp_all

lemma exit_is_last_call:
  assumes "returns (start e)"
  shows "last (trace (final (script argv environ e fs))) = (Stop, None)"
  using assms by (cases rule: script_paths [of e argv environ fs]) simp_all

text \<open>
  Claim C4. On every exit path of the routine, the failure paths included (a
  navigation error, a wait that expires, a screenshot error, and any other call that
  raises), the browser process and the page handle it acquired are released: the script
  ends with no live handle, and \<^verbatim>\<open>run\<close>, started in any state, leaves no handle live
  that was not live before.
\<close>

theorem handles_released_on_every_path:
  "live (final (script argv environ e fs)) = {}
   \<and> live (snd (run e s)) \<subseteq> live s"
proof
  show "live (final (script argv environ e fs)) = {}"
    by (cases rule: script_paths [of e argv environ fs]) simp_all
  show "live (snd (run e s)) \<subseteq> live s"
    by (auto simp add: run_def async_with_def seq_def call_defs split: outcome.splits)
qed

section \<open>Order of the steps\<close>

text \<open>
  Claim C5. The routine performs its steps in this order, each at most once per run:
  acquire a browser, open a page, navigate to the fixed address, wait for the text
  selector, write the screenshot, release the browser; and no step begins before the
  previous one has completed. In the log of a run, the calls that are among the six
  steps are an initial part of the six steps in their order, no call occurs twice, and
  every step that another step follows has returned. The steps are performed: the
  browser is launched exactly when the driver has started, each further step is called
  exactly when the step before it has returned (the close, which follows the print,
  exactly when the print has returned), and when no call raises, the steps of the run
  are the six steps, each returned.
\<close>

theorem steps_in_order_at_most_once:
  "prefix (filter (\<lambda>c. c \<in> set capture_steps)
       (map fst (trace (final (script argv environ e fs))))) capture_steps
   \<and> distinct (map fst (trace (final (script argv environ e fs))))
   \<and> list_all (\<lambda>ev. snd ev = None)
        (butlast (filter (\<lambda>ev. fst ev \<in> set capture_steps)
           (trace (final (script argv environ e fs)))))
   \<and> (Launch \<in> fst ` set (trace (final (script argv environ e fs)))
        \<longleftrightarrow> returns (start e))
   \<and> (NewPage \<in> fst ` set (trace (final (script argv environ e fs)))
        \<longleftrightarrow> (Launch, None) \<in> set (trace (final (script argv environ e fs))))
   \<and> (Goto ''http://localhost:8081'' \<in> fst ` set (trace (final (script argv environ e fs)))
        \<longleftrightarrow> (NewPage, None) \<in> set (trace (final (script argv environ e fs))))
   \<and> (WaitForSelector ''text=LOADING'' \<in> fst ` set (trace (final (script argv environ e fs)))
        \<longleftrightarrow> (Goto ''http://localhost:8081'', None)
              \<in> set (trace (final (script argv environ e fs))))
   \<and> (Screenshot ''loading_verification.png''
          \<in> fst ` set (trace (final (script argv environ e fs)))
        \<longleftrightarrow> (WaitForSelector ''text=LOADING'', None)
              \<in> set (trace (final (script argv environ e fs))))
   \<and> (Close \<in> fst ` set (trace (final (script argv environ e fs)))
        \<longleftrightarrow> (Screenshot ''loading_verification.png'', None)
              \<in> set (trace (final (script argv environ e fs)))
            \<and> (Print ''Captured loading_verification.png'', None)
              \<in> set (trace (final (script argv environ e fs))))
   \<and> (if returns (start e) \<and> returns (launch e) \<and> returns (new_page e)
          \<and> returns (goto e ''http://localhost:8081'')
          \<and> returns (wait_for_selector e ''text=LOADING'')
          \<and> returns (screenshot e ''loading_verification.png'')
          \<and> returns (stdout_write e ''Captured loading_verification.png'')
          \<and> returns (close e)
       then filter (\<lambda>ev. fst ev \<in> set capture_steps) (trace (final (script argv environ e fs)))
              = map (\<lambda>c. (c, None)) capture_steps
       else length (filter (\<lambda>ev. fst ev \<in> set capture_steps)
                (trace (final (script argv environ e fs)))) \<le> 6)"
  by (cases rule: script_paths [of e argv environ fs]) (simp_all add: capture_steps_def)

section \<open>Propagation of errors\<close>

text \<open>
  Claim C6. A navigation failure and a wait that expires both leave the routine and the
  process uncaught: whenever the navigation or the wait raises, that very error is the
  exception with which the process ends, and the exit status is 1. A run makes one
  attempt and retries nothing: the driver is started once, and no call occurs twice in
  the log.
\<close>

theorem errors_escape_no_retry:
  "((Goto ''http://localhost:8081'', Some x) \<in> set (trace (final (script argv environ e fs)))
      \<longrightarrow> uncaught (script argv environ e fs) = Some x
          \<and> exit_code (script argv environ e fs) = 1)
   \<and> ((WaitForSelector ''text=LOADING'', Some x)
        \<in> set (trace (final (script argv environ e fs)))
      \<longrightarrow> uncaught (script argv environ e fs) = Some x
          \<and> exit_code (script argv environ e fs) = 1)
   \<and> count_list (map fst (trace (final (script argv environ e fs)))) Start = 1
   \<and> distinct (map fst (trace (final (script argv environ e fs))))"
  by (cases rule: script_paths [of e argv environ fs]) simp_all

theorem errors_escape_no_retry_witness:
  "(Goto ''http://localhost:8081'', Some ConnectionError)
     \<in> set (trace (final (script [] Map.empty unreachable Map.empty)))
   \<and> uncaught (script [] Map.empty unreachable Map.empty) = Some ConnectionError
   \<and> exit_code (script [] Map.empty unreachable Map.empty) = 1
   \<and> (WaitForSelector ''text=LOADING'', Some TimeoutError)
     \<in> set (trace (final (script [] Map.empty never_loading Map.empty)))
   \<and> uncaught (script [] Map.empty never_loading Map.empty) = Some TimeoutError
   \<and> exit_code (script [] Map.empty never_loading Map.empty) = 1"
proof -
  have g: "(Goto ''http://localhost:8081'', Some ConnectionError)
      \<in> set (trace (final (script [] Map.empty unreachable Map.empty)))"
    by (simp add: env_defs run_defs)
  have w: "(WaitForSelector ''text=LOADING'', Some TimeoutError)
      \<in> set (trace (final (script [] Map.empty never_loading Map.empty)))"
    by (simp add: env_defs run_defs)
  from g w
    errors_escape_no_retry [of ConnectionError "[]" Map.empty unreachable Map.empty]
    errors_escape_no_retry [of TimeoutError "[]" Map.empty never_loading Map.empty]
  show ?thesis by blast
qed

section \<open>No inputs\<close>

text \<open>
  Claim C7. The routine takes no inputs. Whatever the command line, the process
  environment, the files and the answers of the library, the only address it navigates
  to is \<^verbatim>\<open>http://localhost:8081\<close>, the only selector it waits for is \<^verbatim>\<open>text=LOADING\<close>, and
  the only path it writes is the relative path \<^verbatim>\<open>loading_verification.png\<close>; the command
  line and the process environment change nothing of a run, and the files it finds
  change nothing of the calls it makes.
\<close>

theorem parameters_are_fixed:
  "fst ` set (trace (final (script argv environ e fs))) \<subseteq>
     {Start, Launch, NewPage, Goto ''http://localhost:8081'',
      WaitForSelector ''text=LOADING'', Screenshot ''loading_verification.png'',
      Print ''Captured loading_verification.png'', Close, Stop}
   \<and> script argv environ e fs = script argv' environ' e fs
   \<and> trace (final (script argv environ e fs)) = trace (final (script argv' environ' e fs'))"
proof (intro conjI)
  show "fst ` set (trace (final (script argv environ e fs))) \<subseteq>
     {Start, Launch, NewPage, Goto ''http://localhost:8081'',
      WaitForSelector ''text=LOADING'', Screenshot ''loading_verification.png'',
      Print ''Captured loading_verification.png'', Close, Stop}"
    by (cases rule: script_paths [of e argv environ fs]) simp_all
  show "script argv environ e fs = script argv' environ' e fs"
    by (simp add: script_def)
  show "trace (final (script argv environ e fs)) = trace (final (script argv' environ' e fs'))"
    by (cases rule: script_paths [of e argv environ fs];
        cases rule: script_paths [of e argv' environ' fs']) simp_all
qed

section \<open>Running again\<close>

text \<open>
  Claim C8. Successful runs all write their screenshot to the same fixed path, each
  over the file of the one before. After any number of successful runs, one at least,
  the file system is the initial one with the last run's screenshot at
  \<^verbatim>\<open>loading_verification.png\<close>, so the set of files is the initial set with that one
  path, the same set as after the first run; what the file holds is the last run's
  image.
\<close>

theorem rerun_overwrites_same_path:
  assumes "es \<noteq> []" and "list_all (\<lambda>r. exit_code r = 0) (rerun es fs)"
  shows "(\<exists>img. screenshot (last es) ''loading_verification.png'' = Returns img
          \<and> files (final (last (rerun es fs))) = fs(''loading_verification.png'' \<mapsto> img))
    \<and> dom (files (final (last (rerun es fs)))) = insert ''loading_verification.png'' (dom fs)
    \<and> dom (files (final (last (rerun es fs)))) = dom (files (final (hd (rerun es fs))))
    \<and> list_all (\<lambda>r. (Screenshot ''loading_verification.png'', None) \<in> set (trace (final r)))
         (rerun es fs)"
proof -
  from rerun_last_files [OF assms] obtain c where
    c: "screenshot (last es) ''loading_verification.png'' = Returns c"
    and f: "files (final (last (rerun es fs))) = fs(''loading_verification.png'' \<mapsto> c)"
    by blast
  from assms obtain e es' where es: "es = e # es'" by (cases es) simp_all
  with assms have "exit_code (script [] Map.empty e fs) = 0" by simp
  from script_success [OF this] have
    h: "dom (files (final (hd (rerun es fs)))) = insert ''loading_verification.png'' (dom fs)"
    using es by auto
  have t: "list_all (\<lambda>r. (Screenshot ''loading_verification.png'', None) \<in> set (trace (final r)))
      (rerun xs g)"
    if "list_all (\<lambda>r. exit_code r = 0) (rerun xs g)" for xs g
    using that
  proof (induction xs arbitrary: g)
    case Nil
    then show ?case by simp
  next
    case (Cons x xs)
    from Cons.prems have "exit_code (script [] Map.empty x g) = 0" by simp
    then have "(Screenshot ''loading_verification.png'', None)
        \<in> set (trace (final (script [] Map.empty x g)))"
      by (cases rule: script_paths [of x "[]" Map.empty g]) (simp_all split: if_splits)
    with Cons show ?case by simp
  qed
  from c f h t [OF assms(2)] show ?thesis by auto
qed

theorem rerun_overwrites_same_path_witness:
  "[all_ok, later_shot] \<noteq> []
   \<and> list_all (\<lambda>r. exit_code r = 0) (rerun [all_ok, later_shot] Map.empty)
   \<and> files (final (hd (rerun [all_ok, later_shot] Map.empty)))
       = [''loading_verification.png'' \<mapsto> [137, 80, 78, 71]]
   \<and> files (final (last (rerun [all_ok, later_shot] Map.empty)))
       = [''loading_verification.png'' \<mapsto> [137, 80, 78, 71, 1, 2]]
   \<and> dom (files (final (last (rerun [all_ok, later_shot] Map.empty))))
       = {''loading_verification.png''}
   \<and> dom (files (final (hd (rerun [all_ok, later_shot] Map.empty))))
       = {''loading_verification.png''}"
proof -
  have ok: "list_all (\<lambda>r. exit_code r = 0) (rerun [all_ok, later_shot] Map.empty)"
    by (simp add: run_defs env_defs)
  have ne: "[all_ok, later_shot] \<noteq> []" by simp
  from rerun_overwrites_same_path [OF ne ok] ok show ?thesis
    by (simp add: run_defs env_defs)
qed

section \<open>Determinism\<close>




section \<open>The confirmation message\<close>



end
